theory Spec2Isabelle
  imports Main "HOL-Library.Multiset" "HOL-Library.FSet"
begin

section \<open>Values, exceptions and the event trace\<close>

text \<open>
  The program (\<open>main.py\<close>) runs a shell command, parses its output, loads a baseline
  document, compares the two with a deep-diff library and logs or saves the result.

  Parsed documents are Python values. \<open>Scalar SNull\<close> is Python's \<open>None\<close>: the
  parsers return it for a null document, and the functions of the program return it
  when they fail, so the two cannot be told apart by the caller.
\<close>

datatype scalar = SNull | SBool bool | SInt int | SFloat string | SStr string

datatype node = Scalar scalar | Mapping "(string \<times> node) list" | Sequence "node list"

abbreviation PyNone :: node where
  "PyNone \<equiv> Scalar SNull"

text \<open>The exception classes the handlers of the program tell apart; each carries \<open>str(e)\<close>.\<close>

datatype exn =
    YAMLError string
  | JSONDecodeError string
  | FileNotFoundError string
  | RequestException string
  | CalledProcessError string
  | OtherException string

fun exn_text :: "exn \<Rightarrow> string" where
  "exn_text (YAMLError m) = m"
| "exn_text (JSONDecodeError m) = m"
| "exn_text (FileNotFoundError m) = m"
| "exn_text (RequestException m) = m"
| "exn_text (CalledProcessError m) = m"
| "exn_text (OtherException m) = m"

datatype level = INFO | WARNING | ERROR

datatype kind = ValueChanged | TypeChanged | KeyAdded | KeyRemoved | ItemAdded | ItemRemoved

datatype entry =
  Entry (path: "string list") (kind: kind) (oldValue: "node option") (newValue: "node option")

type_synonym diff = "entry list"

text \<open>
  Every call that leaves the program (process, file, network, parser, diff library,
  log) is recorded, in order, in a trace of events.
\<close>

datatype event =
    Log level string
  | Popen string
  | OpenRead string
  | RequestsGet string
  | YamlSafeLoad string
  | JsonLoads string
  | DeepDiffCall node node
  | WriteFile string

text \<open>
  The result of \<open>subprocess.Popen(...).communicate()\<close>: the return code and the
  two decoded streams (\<open>decode()\<close> may raise).
\<close>

datatype proc =
  Proc (returncode: int) (stdout_text: "exn + string") (stderr_text: "exn + string")

text \<open>
  The libraries and the operating system are parameters of the model: \<open>'fs\<close> is the
  state of the file system. \<open>write_json fs p d\<close> stands for
  \<open>with open(p, 'w') as f: json.dump(d, f, indent=4)\<close>: the new file system, and the
  exception if one was raised.
\<close>

record 'fs env =
  popen :: "string \<Rightarrow> exn + proc"
  open_read :: "'fs \<Rightarrow> string \<Rightarrow> exn + string"
  requests_get :: "string \<Rightarrow> exn + string"
  yaml_safe_load :: "string \<Rightarrow> exn + node"
  json_loads :: "string \<Rightarrow> exn + node"
  deep_diff :: "node \<Rightarrow> node \<Rightarrow> exn + diff"
  write_json :: "'fs \<Rightarrow> string \<Rightarrow> diff \<Rightarrow> 'fs \<times> exn option"
  str_diff :: "diff \<Rightarrow> string"

section \<open>String helpers of Python\<close>

text \<open>\<open>str.isspace\<close>, \<open>str.strip\<close>, \<open>str.lower\<close> and \<open>str.endswith\<close> on code points below 256.\<close>

definition isspace :: "char \<Rightarrow> bool" where
  "isspace c = (let n = (of_char c :: nat) in
     (9 \<le> n \<and> n \<le> 13) \<or> (28 \<le> n \<and> n \<le> 32) \<or> n = 133 \<or> n = 160)"

definition strip :: "string \<Rightarrow> string" where
  "strip s = rev (dropWhile isspace (rev (dropWhile isspace s)))"

definition lower_char :: "char \<Rightarrow> char" where
  "lower_char c = (let n = (of_char c :: nat) in
     if (65 \<le> n \<and> n \<le> 90) \<or> (192 \<le> n \<and> n \<le> 222 \<and> n \<noteq> 215)
     then char_of (n + 32) else c)"

definition lower :: "string \<Rightarrow> string" where
  "lower s = map lower_char s"

definition endswith :: "string \<Rightarrow> string \<Rightarrow> bool" where
  "endswith s suf = (length suf \<le> length s \<and> drop (length s - length suf) s = suf)"

section \<open>The functions of main.py\<close>

text \<open>
  Each function returns its Python result together with the events it caused, in order.
  A caught exception is a branch that logs and returns \<open>None\<close>, as the handlers do.
\<close>

subsection \<open>run_command\<close>

text \<open>The two handlers of \<open>run_command\<close>: \<open>CalledProcessError\<close> first, then \<open>Exception\<close>.\<close>

fun run_command_handler :: "exn \<Rightarrow> event" where
  "run_command_handler (CalledProcessError m) = Log ERROR (''Command execution failed: '' @ m)"
| "run_command_handler e = Log ERROR (''An unexpected error occurred: '' @ exn_text e)"

definition run_command :: "'fs env \<Rightarrow> string \<Rightarrow> string option \<times> event list" where
  "run_command env command =
     (case popen env command of
        Inl e \<Rightarrow> (None, [Popen command, run_command_handler e])
      | Inr p \<Rightarrow>
          if returncode p \<noteq> 0 then
            (case stderr_text p of
               Inl e \<Rightarrow> (None, [Popen command, run_command_handler e])
             | Inr err \<Rightarrow>
                 (None, [Popen command,
                         Log ERROR (''Command execution failed with error: '' @ err)]))
          else
            (case stdout_text p of
               Inl e \<Rightarrow> (None, [Popen command, run_command_handler e])
             | Inr out \<Rightarrow> (Some (strip out), [Popen command])))"

subsection \<open>load_baseline\<close>

fun load_baseline_handler :: "string \<Rightarrow> exn \<Rightarrow> event" where
  "load_baseline_handler p (FileNotFoundError m) = Log ERROR (''Baseline file not found: '' @ p)"
| "load_baseline_handler p (RequestException m) =
     Log ERROR (''Error fetching baseline from URL: '' @ m)"
| "load_baseline_handler p (YAMLError m) = Log ERROR (''Error parsing YAML: '' @ m)"
| "load_baseline_handler p (JSONDecodeError m) = Log ERROR (''Error parsing JSON: '' @ m)"
| "load_baseline_handler p e =
     Log ERROR (''An unexpected error occurred while loading the baseline: '' @ exn_text e)"

text \<open>Lines 88 to 94: the format taken from the extension when none is given.\<close>

definition baseline_format :: "string \<Rightarrow> string option \<Rightarrow> string" where
  "baseline_format baseline_path format =
     (case format of
        Some f \<Rightarrow> f
      | None \<Rightarrow>
          if endswith (lower baseline_path) ''.yaml'' \<or> endswith (lower baseline_path) ''.yml''
          then ''yaml''
          else if endswith (lower baseline_path) ''.json'' then ''json''
          else ''yaml'')"

text \<open>Lines 80 to 86: the text of the baseline, from the URL or from the file.\<close>

definition fetch_baseline :: "'fs env \<Rightarrow> 'fs \<Rightarrow> string \<Rightarrow> bool \<Rightarrow> (exn + string) \<times> event list" where
  "fetch_baseline env fs baseline_path remote =
     (if remote then (requests_get env baseline_path, [RequestsGet baseline_path])
      else (open_read env fs baseline_path, [OpenRead baseline_path]))"

definition load_baseline ::
  "'fs env \<Rightarrow> 'fs \<Rightarrow> string \<Rightarrow> string option \<Rightarrow> bool \<Rightarrow> node \<times> event list" where
  "load_baseline env fs baseline_path format remote =
     (case fetch_baseline env fs baseline_path remote of
        (Inl e, evs) \<Rightarrow> (PyNone, evs @ [load_baseline_handler baseline_path e])
      | (Inr content, evs) \<Rightarrow>
          let fmt = baseline_format baseline_path format in
          if fmt = ''yaml'' then
            (case yaml_safe_load env content of
               Inr v \<Rightarrow> (v, evs @ [YamlSafeLoad content])
             | Inl e \<Rightarrow>
                 (PyNone, evs @ [YamlSafeLoad content, load_baseline_handler baseline_path e]))
          else if fmt = ''json'' then
            (case json_loads env content of
               Inr v \<Rightarrow> (v, evs @ [JsonLoads content])
             | Inl e \<Rightarrow>
                 (PyNone, evs @ [JsonLoads content, load_baseline_handler baseline_path e]))
          else (PyNone, evs @ [Log ERROR (''Unsupported format: '' @ fmt)]))"

subsection \<open>compare_configurations\<close>

definition compare_configurations ::
  "'fs env \<Rightarrow> node \<Rightarrow> node \<Rightarrow> diff option \<times> event list" where
  "compare_configurations env baseline current_config =
     (if baseline = PyNone \<or> current_config = PyNone then (None, [])
      else
        (case deep_diff env baseline current_config of
           Inr d \<Rightarrow> (Some d, [DeepDiffCall baseline current_config])
         | Inl e \<Rightarrow>
             (None, [DeepDiffCall baseline current_config,
                     Log ERROR (''Error comparing configurations: '' @ exn_text e)])))"

subsection \<open>save_differences\<close>

definition save_differences :: "'fs env \<Rightarrow> 'fs \<Rightarrow> diff \<Rightarrow> string \<Rightarrow> 'fs \<times> event list" where
  "save_differences env fs differences output_path =
     (case write_json env fs output_path differences of
        (fs', None) \<Rightarrow>
          (fs', [WriteFile output_path, Log INFO (''Differences saved to: '' @ output_path)])
      | (fs', Some e) \<Rightarrow>
          (fs', [WriteFile output_path,
                 Log ERROR (''Error saving differences to file: '' @ exn_text e)]))"

subsection \<open>format_output\<close>

fun format_output_handler :: "exn \<Rightarrow> event" where
  "format_output_handler (YAMLError m) = Log ERROR (''Error parsing YAML: '' @ m)"
| "format_output_handler (JSONDecodeError m) = Log ERROR (''Error parsing JSON: '' @ m)"
| "format_output_handler e =
     Log ERROR (''An unexpected error occurred while loading the baseline: '' @ exn_text e)"

definition autodetect_failed :: string where
  "autodetect_failed =
     ''Could not autodetect the configuration format (YAML or JSON), and no format specified.  Returning None.''"

text \<open>
  The inner \<open>try\<close> of the autodetection catches \<open>yaml.YAMLError\<close> only, and its handler
  catches \<open>json.JSONDecodeError\<close> only: every other exception goes to the outer handlers.
\<close>

definition format_output :: "'fs env \<Rightarrow> string \<Rightarrow> string option \<Rightarrow> node \<times> event list" where
  "format_output env config_string format =
     (if format = Some ''yaml'' then
        (case yaml_safe_load env config_string of
           Inr v \<Rightarrow> (v, [YamlSafeLoad config_string])
         | Inl e \<Rightarrow> (PyNone, [YamlSafeLoad config_string, format_output_handler e]))
      else if format = Some ''json'' then
        (case json_loads env config_string of
           Inr v \<Rightarrow> (v, [JsonLoads config_string])
         | Inl e \<Rightarrow> (PyNone, [JsonLoads config_string, format_output_handler e]))
      else
        (case yaml_safe_load env config_string of
           Inr v \<Rightarrow> (v, [YamlSafeLoad config_string])
         | Inl (YAMLError m) \<Rightarrow>
             (case json_loads env config_string of
                Inr v \<Rightarrow> (v, [YamlSafeLoad config_string, JsonLoads config_string])
              | Inl (JSONDecodeError m') \<Rightarrow>
                  (PyNone, [YamlSafeLoad config_string, JsonLoads config_string,
                            Log ERROR autodetect_failed])
              | Inl e \<Rightarrow>
                  (PyNone, [YamlSafeLoad config_string, JsonLoads config_string,
                            format_output_handler e]))
         | Inl e \<Rightarrow> (PyNone, [YamlSafeLoad config_string, format_output_handler e])))"

subsection \<open>check_configuration\<close>

text \<open>Truth values of Python: a string is true when it is not empty, \<open>None\<close> is false.\<close>

fun truthy_str :: "string option \<Rightarrow> bool" where
  "truthy_str None = False"
| "truthy_str (Some s) = (s \<noteq> [])"

text \<open>The result of the diff library is a dictionary: true when it has an entry.\<close>

fun truthy_diff :: "diff option \<Rightarrow> bool" where
  "truthy_diff None = False"
| "truthy_diff (Some d) = (d \<noteq> [])"

text \<open>
  Lines 235 to 242 of \<open>check_configuration\<close>: the verdict, and the file written when
  there are differences and an output path.
\<close>

definition report_differences ::
  "'fs env \<Rightarrow> 'fs \<Rightarrow> diff option \<Rightarrow> string option \<Rightarrow> 'fs \<times> event list" where
  "report_differences env fs differences output_path =
     (if truthy_diff differences then
        (let d = the differences;
             evs = [Log WARNING ''Configuration drift detected!'',
                    Log INFO (''Differences: '' @ str_diff env d)] in
         if truthy_str output_path then
           (case save_differences env fs d (the output_path) of
              (fs', evs') \<Rightarrow> (fs', evs @ evs'))
         else (fs, evs))
      else (fs, [Log INFO ''No configuration drift detected.'']))"

text \<open>
  One check cycle, from line 206: the function returns nothing, so the model returns the
  file system after the cycle and the trace. The \<open>if format:\<close> of line 216 passes
  \<open>None\<close> to \<open>format_output\<close> for an empty format string.
\<close>

definition check_configuration ::
  "'fs env \<Rightarrow> 'fs \<Rightarrow> string \<Rightarrow> string \<Rightarrow> string option \<Rightarrow> string option \<Rightarrow> bool
     \<Rightarrow> 'fs \<times> event list" where
  "check_configuration env fs command baseline_path output_path format remote =
     (case run_command env command of
        (None, ev1) \<Rightarrow>
          (fs, Log INFO ''Running configuration check...'' # ev1 @
               [Log ERROR ''Failed to retrieve current configuration. Aborting.''])
      | (Some current_config_string, ev1) \<Rightarrow>
          (case (if truthy_str format then format_output env current_config_string format
                 else format_output env current_config_string None) of
             (current_config, ev2) \<Rightarrow>
               if current_config = PyNone then
                 (fs, Log INFO ''Running configuration check...'' # ev1 @ ev2 @
                      [Log ERROR ''Failed to parse current configuration. Aborting''])
               else
                 (case load_baseline env fs baseline_path format remote of
                    (baseline, ev3) \<Rightarrow>
                      if baseline = PyNone then
                        (fs, Log INFO ''Running configuration check...'' # ev1 @ ev2 @ ev3 @
                             [Log ERROR ''Failed to load baseline configuration. Aborting.''])
                      else
                        (case compare_configurations env baseline current_config of
                           (differences, ev4) \<Rightarrow>
                             (case report_differences env fs differences output_path of
                                (fs', ev5) \<Rightarrow>
                                  (fs', Log INFO ''Running configuration check...'' # ev1 @ ev2 @
                                        ev3 @ ev4 @ ev5))))))"

section \<open>The comparison engine\<close>

text \<open>
  The diff library (\<open>DeepDiff(baseline, current_config, ignore_order=True)\<close>) is imported
  by \<open>main.py\<close> and is not part of the sources: \<open>compare_configurations\<close> above takes it
  as the parameter \<open>deep_diff\<close>. The definitions of this section follow section 4.2 of
  the specification (DiffEngine) instead: a structural recursive diff in which a
  sequence is a multiset of canonical sub-trees.
\<close>

text \<open>
  Modelled from the spec: the diff library is missing. The canonical form of a tree
  (section 4.2, step 3): the order of the items of a sequence and the order of the
  entries of a mapping are forgotten.
\<close>

datatype cnode =
    CScalar scalar
  | CMapping "(string \<times> cnode) fset"
  | CSequence "cnode multiset"

primrec canon :: "node \<Rightarrow> cnode" where
  "canon (Scalar s) = CScalar s"
| "canon (Mapping kvs) = CMapping (fset_of_list (map (map_prod id canon) kvs))"
| "canon (Sequence xs) = CSequence (mset (map canon xs))"

text \<open>
  Modelled from the spec: the diff library is missing. \<open>remove_match x ys\<close> removes from
  \<open>ys\<close> the first item whose canonical form is that of \<open>x\<close> (step 3: matched items
  are removed from both sides).
\<close>

fun remove_match :: "node \<Rightarrow> node list \<Rightarrow> node list option" where
  "remove_match x [] = None"
| "remove_match x (y # ys) =
     (if canon x = canon y then Some ys
      else (case remove_match x ys of None \<Rightarrow> None | Some ys' \<Rightarrow> Some (y # ys')))"

text \<open>
  Modelled from the spec: the diff library is missing. The items of \<open>xs\<close> left once
  every item matched in \<open>ys\<close> is removed from both sides (step 3).
\<close>

fun unmatched :: "node list \<Rightarrow> node list \<Rightarrow> node list" where
  "unmatched [] ys = []"
| "unmatched (x # xs) ys =
     (case remove_match x ys of
        Some ys' \<Rightarrow> unmatched xs ys'
      | None \<Rightarrow> x # unmatched xs ys)"

text \<open>
  Modelled from the spec: the diff library is missing. The comparison of section 4.2:
  scalars by value (step 1), mappings key by key, the keys of the baseline first and
  then the keys only in the current tree (step 2), sequences as multisets (step 3), a
  type change for any other pair (steps 1 and 4); the path grows by the key at a
  mapping step and stays at the sequence for its items (step 5).
\<close>

fun compare :: "string list \<Rightarrow> node \<Rightarrow> node \<Rightarrow> diff"
  and compare_keys :: "string list \<Rightarrow> (string \<times> node) list \<Rightarrow> (string \<times> node) list \<Rightarrow> diff"
where
  "compare p (Scalar a) (Scalar b) =
     (if a = b then [] else [Entry p ValueChanged (Some (Scalar a)) (Some (Scalar b))])"
| "compare p (Mapping as) (Mapping bs) =
     compare_keys p as bs @
     map (\<lambda>kw. Entry (p @ [fst kw]) KeyAdded None (Some (snd kw)))
       (filter (\<lambda>kw. map_of as (fst kw) = None) bs)"
| "compare p (Sequence xs) (Sequence ys) =
     map (\<lambda>x. Entry p ItemRemoved (Some x) None) (unmatched xs ys) @
     map (\<lambda>y. Entry p ItemAdded None (Some y)) (unmatched ys xs)"
| "compare p (Scalar a) (Mapping bs) =
     [Entry p TypeChanged (Some (Scalar a)) (Some (Mapping bs))]"
| "compare p (Scalar a) (Sequence ys) =
     [Entry p TypeChanged (Some (Scalar a)) (Some (Sequence ys))]"
| "compare p (Mapping as) (Scalar b) =
     [Entry p TypeChanged (Some (Mapping as)) (Some (Scalar b))]"
| "compare p (Mapping as) (Sequence ys) =
     [Entry p TypeChanged (Some (Mapping as)) (Some (Sequence ys))]"
| "compare p (Sequence xs) (Scalar b) =
     [Entry p TypeChanged (Some (Sequence xs)) (Some (Scalar b))]"
| "compare p (Sequence xs) (Mapping bs) =
     [Entry p TypeChanged (Some (Sequence xs)) (Some (Mapping bs))]"
| "compare_keys p [] bs = []"
| "compare_keys p (kv # as) bs =
     (case map_of bs (fst kv) of
        Some w \<Rightarrow> compare (p @ [fst kv]) (snd kv) w
      | None \<Rightarrow> [Entry (p @ [fst kv]) KeyRemoved (Some (snd kv)) None]) @
     compare_keys p as bs"

text \<open>
  Modelled from the spec: the diff library is missing. The comparison never fails
  (section 4.2, error conditions): as a diff library it always returns.
\<close>

definition deep_diff_spec :: "node \<Rightarrow> node \<Rightarrow> exn + diff" where
  "deep_diff_spec baseline current_config = Inr (compare [] baseline current_config)"

text \<open>A well-formed tree: the keys of every mapping are unique.\<close>

fun wf_node :: "node \<Rightarrow> bool" where
  "wf_node (Scalar s) = True"
| "wf_node (Mapping kvs) = (distinct (map fst kvs) \<and> list_all (\<lambda>kv. wf_node (snd kv)) kvs)"
| "wf_node (Sequence xs) = list_all wf_node xs"

text \<open>Two trees that are the same but for the order of the items inside sequences.\<close>

inductive reordered :: "node \<Rightarrow> node \<Rightarrow> bool" where
  reordered_scalar: "reordered (Scalar s) (Scalar s)"
| reordered_mapping:
    "list_all2 (\<lambda>kv kw. fst kv = fst kw \<and> reordered (snd kv) (snd kw)) as bs
     \<Longrightarrow> reordered (Mapping as) (Mapping bs)"
| reordered_sequence:
    "list_all2 reordered xs zs \<Longrightarrow> mset zs = mset ys
     \<Longrightarrow> reordered (Sequence xs) (Sequence ys)"

section \<open>Classes of events\<close>

fun is_error_log :: "event \<Rightarrow> bool" where
  "is_error_log (Log ERROR m) = True"
| "is_error_log e = False"

fun is_yaml_call :: "event \<Rightarrow> bool" where
  "is_yaml_call (YamlSafeLoad s) = True"
| "is_yaml_call e = False"

fun is_json_call :: "event \<Rightarrow> bool" where
  "is_json_call (JsonLoads s) = True"
| "is_json_call e = False"

definition is_parser_call :: "event \<Rightarrow> bool" where
  "is_parser_call e = (is_yaml_call e \<or> is_json_call e)"

fun is_baseline_fetch :: "event \<Rightarrow> bool" where
  "is_baseline_fetch (OpenRead p) = True"
| "is_baseline_fetch (RequestsGet p) = True"
| "is_baseline_fetch e = False"

fun is_diff_call :: "event \<Rightarrow> bool" where
  "is_diff_call (DeepDiffCall b c) = True"
| "is_diff_call e = False"

fun is_write :: "event \<Rightarrow> bool" where
  "is_write (WriteFile p) = True"
| "is_write e = False"

text \<open>An event that is neither a parser call, a fetch of the baseline, a diff nor a write.\<close>

definition quiet :: "event \<Rightarrow> bool" where
  "quiet e = (\<not> is_parser_call e \<and> \<not> is_baseline_fetch e \<and> \<not> is_diff_call e \<and> \<not> is_write e)"

text \<open>An event of the stages that come before the comparison.\<close>

fun is_popen :: "event \<Rightarrow> bool" where
  "is_popen (Popen c) = True"
| "is_popen e = False"

definition early :: "event \<Rightarrow> bool" where
  "early e = (is_error_log e \<or> is_parser_call e \<or> is_baseline_fetch e \<or> is_popen e)"

text \<open>The two verdicts of a check cycle, as it logs them (lines 236 and 242).\<close>

definition drift_detected :: event where
  "drift_detected = Log WARNING ''Configuration drift detected!''"

definition no_drift_detected :: event where
  "no_drift_detected = Log INFO ''No configuration drift detected.''"

text \<open>The three messages with which a cycle aborts (lines 212, 222 and 229).\<close>

definition command_failed :: event where
  "command_failed = Log ERROR ''Failed to retrieve current configuration. Aborting.''"

definition parse_failed :: event where
  "parse_failed = Log ERROR ''Failed to parse current configuration. Aborting''"

definition baseline_failed :: event where
  "baseline_failed = Log ERROR ''Failed to load baseline configuration. Aborting.''"

text \<open>
  The parser as section 4.1 of the specification words it for an explicit hint: parse
  in the named format only, and fail (\<open>None\<close>) when that parser raises.
\<close>

definition strict_parse :: "'fs env \<Rightarrow> string \<Rightarrow> string \<Rightarrow> node" where
  "strict_parse env fmt s =
     (case (if fmt = ''yaml'' then yaml_safe_load env s else json_loads env s) of
        Inr v \<Rightarrow> v
      | Inl e \<Rightarrow> PyNone)"

text \<open>A call of the parser of the other format.\<close>

definition other_parser_call :: "string \<Rightarrow> event \<Rightarrow> bool" where
  "other_parser_call fmt e = (if fmt = ''yaml'' then is_json_call e else is_yaml_call e)"

text \<open>An event that is neither a write nor one of the two verdicts.\<close>

definition before_report :: "event \<Rightarrow> bool" where
  "before_report e = (\<not> is_write e \<and> e \<noteq> drift_detected \<and> e \<noteq> no_drift_detected)"

text \<open>
  The two ways in which \<open>format_output\<close> comes to return \<open>None\<close>, for any format hint:
  the parser it consults returns null, or the parsing fails. Without a hint YAML is
  consulted first, and JSON when YAML raises a \<open>YAMLError\<close>.
\<close>

definition parses_to_null :: "'fs env \<Rightarrow> string option \<Rightarrow> string \<Rightarrow> bool" where
  "parses_to_null env format s =
     (if format = Some ''yaml'' then yaml_safe_load env s = Inr PyNone
      else if format = Some ''json'' then json_loads env s = Inr PyNone
      else (case yaml_safe_load env s of
              Inr v \<Rightarrow> v = PyNone
            | Inl (YAMLError m) \<Rightarrow> json_loads env s = Inr PyNone
            | Inl e \<Rightarrow> False))"

definition unparseable :: "'fs env \<Rightarrow> string option \<Rightarrow> string \<Rightarrow> bool" where
  "unparseable env format s =
     (if format = Some ''yaml'' then isl (yaml_safe_load env s)
      else if format = Some ''json'' then isl (json_loads env s)
      else (case yaml_safe_load env s of
              Inr v \<Rightarrow> False
            | Inl (YAMLError m) \<Rightarrow> isl (json_loads env s)
            | Inl e \<Rightarrow> True))"

section \<open>A sample environment\<close>

text \<open>
  The concrete instances below run the program in a small environment: a table of what
  the shell, the two parsers and the file system answer on the texts of the examples.
  On these texts the tables agree with PyYAML and with the \<open>json\<close> module; every other
  text is answered with the parse error, every other command with exit status 127.
\<close>

definition sample_popen :: "string \<Rightarrow> exn + proc" where
  "sample_popen command =
     (if command = ''cat /etc/config.txt'' then Inr (Proc 0 (Inr '' a: 1 '') (Inr []))
      else if command = ''echo null'' then Inr (Proc 0 (Inr ''null'') (Inr []))
      else if command = ''echo hello'' then Inr (Proc 0 (Inr ''hello'') (Inr []))
      else if command = ''echo {'' then Inr (Proc 0 (Inr ''{'') (Inr []))
      else Inr (Proc 127 (Inr []) (Inr ''command not found'')))"

definition sample_yaml :: "string \<Rightarrow> exn + node" where
  "sample_yaml s =
     (if s = ''a: 1'' then Inr (Mapping [(''a'', Scalar (SInt 1))])
      else if s = ''a: 2'' then Inr (Mapping [(''a'', Scalar (SInt 2))])
      else if s = ''null'' then Inr PyNone
      else if s = ''hello'' then Inr (Scalar (SStr ''hello''))
      else Inl (YAMLError ''while parsing''))"

definition sample_json :: "string \<Rightarrow> exn + node" where
  "sample_json s =
     (if s = ''null'' then Inr PyNone
      else Inl (JSONDecodeError ''Expecting value''))"

type_synonym sample_files = "(string \<times> string) list"

definition sample_open_read :: "sample_files \<Rightarrow> string \<Rightarrow> exn + string" where
  "sample_open_read fs p =
     (case map_of fs p of Some content \<Rightarrow> Inr content | None \<Rightarrow> Inl (FileNotFoundError p))"

definition sample_str_diff :: "diff \<Rightarrow> string" where
  "sample_str_diff d = concat (map (\<lambda>e. concat (map (\<lambda>k. ''/'' @ k) (path e))) d)"

definition sample_env :: "sample_files env" where
  "sample_env =
     \<lparr> popen = sample_popen,
       open_read = sample_open_read,
       requests_get = (\<lambda>url. Inl (RequestException ''connection refused'')),
       yaml_safe_load = sample_yaml,
       json_loads = sample_json,
       deep_diff = deep_diff_spec,
       write_json = (\<lambda>fs p d. ((p, sample_str_diff d) # fs, None)),
       str_diff = sample_str_diff \<rparr>"

definition sample_fs :: sample_files where
  "sample_fs = [(''baseline.yaml'', ''a: 1''), (''baseline.json'', ''a: 1''),
                (''changed.yaml'', ''a: 2''), (''empty.yaml'', ''null''),
                (''baseline.yml'', ''a: 1''), (''baseline.conf'', ''a: 1'')]"

lemmas sample_defs =
  sample_env_def sample_popen_def sample_yaml_def sample_json_def sample_open_read_def
  sample_str_diff_def sample_fs_def deep_diff_spec_def

section \<open>The stages of a check cycle\<close>

lemma run_command_handler_error: "is_error_log (run_command_handler e)"
  by (cases e) simp_all

lemma run_command_events:
  "e \<in> set (snd (run_command env command)) \<Longrightarrow> is_error_log e \<or> e = Popen command"
  by (auto simp: run_command_def run_command_handler_error split: sum.splits if_splits)

lemma error_log_or_popen_quiet: "is_error_log e \<or> e = Popen c \<Longrightarrow> quiet e"
  by (cases e) (auto simp: quiet_def is_parser_call_def)

lemma run_command_quiet: "list_all quiet (snd (run_command env command))"
  unfolding list_all_iff using run_command_events error_log_or_popen_quiet by blast

lemma check_configuration_no_output:
  assumes "run_command env command = (None, ev1)"
  shows "check_configuration env fs command baseline_path output_path format remote =
           (fs, Log INFO ''Running configuration check...'' # ev1 @ [command_failed])"
  unfolding check_configuration_def assms command_failed_def by simp

lemma format_output_falsy:
  "\<not> truthy_str format \<Longrightarrow> format_output env s format = format_output env s None"
  by (cases format) (auto simp: format_output_def)

lemma format_output_handler_error: "is_error_log (format_output_handler e)"
  by (cases e) simp_all

lemma load_baseline_handler_error: "is_error_log (load_baseline_handler p e)"
  by (cases e) simp_all

lemma format_output_events:
  "e \<in> set (snd (format_output env s format)) \<Longrightarrow> is_error_log e \<or> is_parser_call e"
  by (auto simp: format_output_def format_output_handler_error is_parser_call_def
      split: sum.splits if_splits exn.splits)

lemma load_baseline_events:
  "e \<in> set (snd (load_baseline env fs p format remote)) \<Longrightarrow>
     is_error_log e \<or> is_parser_call e \<or> is_baseline_fetch e"
  by (auto simp: load_baseline_def fetch_baseline_def load_baseline_handler_error
      is_parser_call_def Let_def split: sum.splits if_splits)



lemma check_configuration_parse_failed:
  assumes "run_command env command = (Some s, ev1)"
    and "format_output env s format = (PyNone, ev2)"
  shows "check_configuration env fs command baseline_path output_path format remote =
           (fs, Log INFO ''Running configuration check...'' # ev1 @ ev2 @ [parse_failed])"
proof (cases "truthy_str format")
  case True
  then show ?thesis
    by (simp add: check_configuration_def assms parse_failed_def)
next
  case False
  then have "format_output env s None = (PyNone, ev2)"
    using format_output_falsy[OF False, of env s] assms(2) by simp
  with False show ?thesis
    by (simp add: check_configuration_def assms(1) parse_failed_def)
qed

lemma check_configuration_baseline_failed:
  assumes "run_command env command = (Some s, ev1)"
    and "format_output env s format = (cur, ev2)" and "cur \<noteq> PyNone"
    and "load_baseline env fs baseline_path format remote = (PyNone, ev3)"
  shows "check_configuration env fs command baseline_path output_path format remote =
           (fs, Log INFO ''Running configuration check...'' # ev1 @ ev2 @ ev3 @ [baseline_failed])"
proof (cases "truthy_str format")
  case True
  then show ?thesis
    by (simp add: check_configuration_def assms baseline_failed_def)
next
  case False
  then have "format_output env s None = (cur, ev2)"
    using format_output_falsy[OF False, of env s] assms(2) by simp
  with False show ?thesis
    by (simp add: check_configuration_def assms(1,3,4) baseline_failed_def)
qed

lemma check_configuration_compared:
  assumes "run_command env command = (Some s, ev1)"
    and "format_output env s format = (cur, ev2)" and "cur \<noteq> PyNone"
    and "load_baseline env fs baseline_path format remote = (base, ev3)" and "base \<noteq> PyNone"
    and "compare_configurations env base cur = (d, ev4)"
    and "report_differences env fs d output_path = (fs', ev5)"
  shows "check_configuration env fs command baseline_path output_path format remote =
           (fs', Log INFO ''Running configuration check...'' # ev1 @ ev2 @ ev3 @ ev4 @ ev5)"
proof (cases "truthy_str format")
  case True
  then show ?thesis
    by (simp add: check_configuration_def assms)
next
  case False
  then have "format_output env s None = (cur, ev2)"
    using format_output_falsy[OF False, of env s] assms(2) by simp
  with False show ?thesis
    by (simp add: check_configuration_def assms(1,3,4,5,6,7))
qed


lemma early_not_late: "early e \<Longrightarrow> \<not> is_diff_call e \<and> \<not> is_write e"
  by (cases e) (simp_all add: early_def is_parser_call_def)

lemma early_error: "is_error_log e \<Longrightarrow> early e"
  by (simp add: early_def)

lemma run_command_early: "list_all early (snd (run_command env command))"
proof -
  have "early e" if "e \<in> set (snd (run_command env command))" for e
    using run_command_events[OF that] by (auto simp: early_def)
  then show ?thesis by (simp add: list_all_iff)
qed

lemma format_output_early: "list_all early (snd (format_output env s format))"
proof -
  have "early e" if "e \<in> set (snd (format_output env s format))" for e
    using format_output_events[OF that] by (auto simp: early_def)
  then show ?thesis by (simp add: list_all_iff)
qed

lemma load_baseline_early: "list_all early (snd (load_baseline env fs p format remote))"
proof -
  have "early e" if "e \<in> set (snd (load_baseline env fs p format remote))" for e
    using load_baseline_events[OF that] by (auto simp: early_def)
  then show ?thesis by (simp add: list_all_iff)
qed

section \<open>The claims\<close>

text \<open>
  C3. When the external command fails (\<open>run_command\<close> returns \<open>None\<close>), the cycle logs
  the command failure and returns: the file system is unchanged, and the trace holds the
  events of \<open>run_command\<close> only, none of which is a parser call, a fetch of the baseline,
  a diff or a write.
\<close>

theorem command_failure_aborts:
  assumes "fst (run_command env command) = None"
  shows "check_configuration env fs command baseline_path output_path format remote =
           (fs, Log INFO ''Running configuration check...'' # snd (run_command env command) @
                [command_failed])
         \<and> list_all quiet
             (snd (check_configuration env fs command baseline_path output_path format remote))"
proof -
  obtain ev1 where rc: "run_command env command = (None, ev1)"
    using assms by (cases "run_command env command") auto
  note cc = check_configuration_no_output[OF rc, of fs baseline_path output_path format remote]
  have "list_all quiet ev1"
    using run_command_quiet[of env command] by (simp add: rc)
  then show ?thesis by (simp add: cc rc quiet_def command_failed_def is_parser_call_def)
qed

theorem command_failure_aborts_witness:
  "fst (run_command sample_env ''false'') = None \<and>
   check_configuration sample_env sample_fs ''false'' ''baseline.yaml'' None None False =
     (sample_fs, [Log INFO ''Running configuration check...'', Popen ''false'',
                  Log ERROR ''Command execution failed with error: command not found'',
                  command_failed])"
proof -
  have h: "fst (run_command sample_env ''false'') = None"
    by (simp add: run_command_def sample_defs)
  have "snd (run_command sample_env ''false'') =
          [Popen ''false'', Log ERROR ''Command execution failed with error: command not found'']"
    by (simp add: run_command_def sample_defs)
  with command_failure_aborts[OF h, of sample_fs "''baseline.yaml''" None None False] h
  show ?thesis by simp
qed

text \<open>
  C2 (as amended). When the command output is obtained and parses to a current
  configuration other than \<open>None\<close>, and \<open>load_baseline\<close> returns \<open>None\<close> (file missing,
  URL unreachable, text unparseable or null), the cycle logs the baseline failure and
  returns: the file system is unchanged and the trace holds neither a diff nor a write.
\<close>

theorem baseline_failure_aborts:
  assumes "fst (run_command env command) = Some s"
    and "fst (format_output env s format) \<noteq> PyNone"
    and "fst (load_baseline env fs baseline_path format remote) = PyNone"
  shows "check_configuration env fs command baseline_path output_path format remote =
           (fs, Log INFO ''Running configuration check...'' # snd (run_command env command) @
                snd (format_output env s format) @
                snd (load_baseline env fs baseline_path format remote) @ [baseline_failed])
         \<and> list_all (\<lambda>e. \<not> is_diff_call e \<and> \<not> is_write e)
             (snd (check_configuration env fs command baseline_path output_path format remote))"
proof -
  obtain ev1 where rc: "run_command env command = (Some s, ev1)"
    using assms(1) by (cases "run_command env command") auto
  obtain cur ev2 where fo: "format_output env s format = (cur, ev2)"
    by (cases "format_output env s format") auto
  obtain ev3 where lb: "load_baseline env fs baseline_path format remote = (PyNone, ev3)"
    using assms(3) by (cases "load_baseline env fs baseline_path format remote") auto
  have cur: "cur \<noteq> PyNone" using assms(2) fo by simp
  note cc = check_configuration_baseline_failed[OF rc fo cur lb, of output_path]
  have e1: "list_all early ev1" using run_command_early[of env command] rc by simp
  have e2: "list_all early ev2" using format_output_early[of env s format] fo by simp
  have e3: "list_all early ev3"
    using load_baseline_early[of env fs baseline_path format remote] lb by simp
  have "list_all early (ev1 @ ev2 @ ev3 @ [baseline_failed])"
    using e1 e2 e3 by (simp add: baseline_failed_def early_error)
  then have "list_all (\<lambda>e. \<not> is_diff_call e \<and> \<not> is_write e) (ev1 @ ev2 @ ev3 @ [baseline_failed])"
    by (rule list.pred_mono_strong) (rule early_not_late)
  then show ?thesis by (simp add: cc rc fo lb)
qed

theorem baseline_failure_aborts_witness:
  "fst (run_command sample_env ''cat /etc/config.txt'') = Some ''a: 1'' \<and>
   fst (format_output sample_env ''a: 1'' None) \<noteq> PyNone \<and>
   fst (load_baseline sample_env sample_fs ''missing.yaml'' None False) = PyNone \<and>
   check_configuration sample_env sample_fs ''cat /etc/config.txt'' ''missing.yaml'' None None False =
     (sample_fs, [Log INFO ''Running configuration check...'', Popen ''cat /etc/config.txt'',
                  YamlSafeLoad ''a: 1'', OpenRead ''missing.yaml'',
                  Log ERROR ''Baseline file not found: missing.yaml'', baseline_failed])"
proof -
  have rc: "run_command sample_env ''cat /etc/config.txt'' = (Some ''a: 1'', [Popen ''cat /etc/config.txt''])"
    by (simp add: run_command_def sample_defs strip_def isspace_def)
  have fo: "format_output sample_env ''a: 1'' None =
              (Mapping [(''a'', Scalar (SInt 1))], [YamlSafeLoad ''a: 1''])"
    by (simp add: format_output_def sample_defs)
  have lb: "load_baseline sample_env sample_fs ''missing.yaml'' None False =
              (PyNone, [OpenRead ''missing.yaml'', Log ERROR ''Baseline file not found: missing.yaml''])"
    by (simp add: load_baseline_def fetch_baseline_def sample_defs)
  have h1: "fst (run_command sample_env ''cat /etc/config.txt'') = Some ''a: 1''"
    by (simp add: rc)
  have h2: "fst (format_output sample_env ''a: 1'' None) \<noteq> PyNone"
    by (simp add: fo)
  have h3: "fst (load_baseline sample_env sample_fs ''missing.yaml'' None False) = PyNone"
    by (simp add: lb)
  from baseline_failure_aborts[OF h1 h2 h3, of None] h1 h2 h3
  show ?thesis by (simp add: rc fo lb)
qed

text \<open>
  The claim as stated fails when the command output does not parse: the current
  configuration is parsed before the baseline is loaded, so the cycle aborts with the
  parse failure and the baseline is never fetched.
\<close>

theorem baseline_failure_counterexample:
  "fst (run_command sample_env ''echo {'') = Some ''{'' \<and>
   fst (load_baseline sample_env sample_fs ''missing.yaml'' None False) = PyNone \<and>
   check_configuration sample_env sample_fs ''echo {'' ''missing.yaml'' None None False =
     (sample_fs, [Log INFO ''Running configuration check...'', Popen ''echo {'',
                  YamlSafeLoad ''{'', JsonLoads ''{'', Log ERROR autodetect_failed,
                  parse_failed]) \<and>
   baseline_failed \<notin> set (snd (check_configuration sample_env sample_fs ''echo {''
                                 ''missing.yaml'' None None False))"
proof -
  have rc: "run_command sample_env ''echo {'' = (Some ''{'', [Popen ''echo {''])"
    by (simp add: run_command_def sample_defs strip_def isspace_def)
  have fo: "format_output sample_env ''{'' None =
              (PyNone, [YamlSafeLoad ''{'', JsonLoads ''{'', Log ERROR autodetect_failed])"
    by (simp add: format_output_def sample_defs)
  have lb: "load_baseline sample_env sample_fs ''missing.yaml'' None False =
              (PyNone, [OpenRead ''missing.yaml'', Log ERROR ''Baseline file not found: missing.yaml''])"
    by (simp add: load_baseline_def fetch_baseline_def sample_defs)
  have cc: "check_configuration sample_env sample_fs ''echo {'' ''missing.yaml'' None None False =
     (sample_fs, [Log INFO ''Running configuration check...'', Popen ''echo {'',
                  YamlSafeLoad ''{'', JsonLoads ''{'', Log ERROR autodetect_failed,
                  parse_failed])"
    using check_configuration_parse_failed[OF rc fo] by simp
  show ?thesis
    by (simp add: rc lb cc baseline_failed_def parse_failed_def autodetect_failed_def)
qed

lemma format_output_null:
  assumes "format = None \<or> format = Some ''yaml''" and "yaml_safe_load env s = Inr PyNone"
  shows "format_output env s format = (PyNone, [YamlSafeLoad s])"
  using assms by (auto simp: format_output_def)

lemma format_output_unparseable:
  assumes "format = None \<or> format = Some ''yaml''"
    and "yaml_safe_load env s = Inl (YAMLError m)"
    and "json_loads env s = Inl (JSONDecodeError m')"
  shows "fst (format_output env s format) = PyNone"
  using assms by (auto simp: format_output_def)

lemma check_configuration_parse_failed':
  assumes "fst (run_command env command) = Some s"
    and "fst (format_output env s format) = PyNone"
  shows "check_configuration env fs command baseline_path output_path format remote =
           (fs, Log INFO ''Running configuration check...'' # snd (run_command env command) @
                snd (format_output env s format) @ [parse_failed])"
proof -
  obtain ev1 where rc: "run_command env command = (Some s, ev1)"
    using assms(1) by (cases "run_command env command") auto
  obtain ev2 where fo: "format_output env s format = (PyNone, ev2)"
    using assms(2) by (cases "format_output env s format") auto
  show ?thesis
    using check_configuration_parse_failed[OF rc fo, of fs baseline_path output_path remote]
    by (simp add: rc fo)
qed

lemma load_baseline_fetches:
  "list_ex is_baseline_fetch (snd (load_baseline env fs p format remote))"
  by (auto simp: load_baseline_def fetch_baseline_def Let_def split: sum.splits)

lemma check_configuration_loads:
  assumes "fst (run_command env command) = Some s"
    and "fst (format_output env s format) \<noteq> PyNone"
  shows "list_ex is_baseline_fetch
           (snd (check_configuration env fs command baseline_path output_path format remote))"
proof -
  obtain ev1 where rc: "run_command env command = (Some s, ev1)"
    using assms(1) by (cases "run_command env command") auto
  obtain cur ev2 where fo: "format_output env s format = (cur, ev2)"
    by (cases "format_output env s format") auto
  have cur: "cur \<noteq> PyNone" using assms(2) fo by simp
  obtain base ev3 where lb: "load_baseline env fs baseline_path format remote = (base, ev3)"
    by (cases "load_baseline env fs baseline_path format remote") auto
  have f3: "list_ex is_baseline_fetch ev3"
    using load_baseline_fetches[of env fs baseline_path format remote] lb by simp
  show ?thesis
  proof (cases "base = PyNone")
    case True
    then show ?thesis
      using check_configuration_baseline_failed[OF rc fo cur, of fs baseline_path remote ev3 output_path]
        lb f3 by simp
  next
    case False
    obtain d ev4 where cmp: "compare_configurations env base cur = (d, ev4)"
      by (cases "compare_configurations env base cur") auto
    obtain fs' ev5 where rep: "report_differences env fs d output_path = (fs', ev5)"
      by (cases "report_differences env fs d output_path") auto
    show ?thesis
      using check_configuration_compared[OF rc fo cur lb False cmp rep] f3 by simp
  qed
qed

lemma handlers_not_parser_calls:
  "\<not> is_yaml_call (format_output_handler e)" "\<not> is_json_call (format_output_handler e)"
  "\<not> is_yaml_call (load_baseline_handler p e)" "\<not> is_json_call (load_baseline_handler p e)"
  by (cases e; simp)+

lemma format_output_yaml:
  "fst (format_output env s (Some ''yaml'')) = strict_parse env ''yaml'' s"
  "list_all (\<lambda>e. \<not> is_json_call e) (snd (format_output env s (Some ''yaml'')))"
  by (auto simp: format_output_def strict_parse_def handlers_not_parser_calls split: sum.splits)

lemma format_output_json:
  "fst (format_output env s (Some ''json'')) = strict_parse env ''json'' s"
  "list_all (\<lambda>e. \<not> is_yaml_call e) (snd (format_output env s (Some ''json'')))"
  by (auto simp: format_output_def strict_parse_def handlers_not_parser_calls split: sum.splits)

lemma load_baseline_yaml:
  "fst (fetch_baseline env fs p remote) = Inr content \<Longrightarrow>
     fst (load_baseline env fs p (Some ''yaml'') remote) = strict_parse env ''yaml'' content"
  "list_all (\<lambda>e. \<not> is_json_call e) (snd (load_baseline env fs p (Some ''yaml'') remote))"
  by (auto simp: load_baseline_def fetch_baseline_def baseline_format_def strict_parse_def
      handlers_not_parser_calls split: sum.splits if_splits)

lemma load_baseline_json:
  "fst (fetch_baseline env fs p remote) = Inr content \<Longrightarrow>
     fst (load_baseline env fs p (Some ''json'') remote) = strict_parse env ''json'' content"
  "list_all (\<lambda>e. \<not> is_yaml_call e) (snd (load_baseline env fs p (Some ''json'') remote))"
  by (auto simp: load_baseline_def fetch_baseline_def baseline_format_def strict_parse_def
      handlers_not_parser_calls split: sum.splits if_splits)

text \<open>
  C4. With an explicit format hint \<open>yaml\<close> or \<open>json\<close>, both \<open>format_output\<close> and
  \<open>load_baseline\<close> return what the parser of that one format returns, and \<open>None\<close> when
  it raises; the parser of the other format is never called.
\<close>

theorem explicit_format_is_strict:
  assumes "fmt = ''yaml'' \<or> fmt = ''json''"
  shows "fst (format_output env s (Some fmt)) = strict_parse env fmt s
       \<and> list_all (\<lambda>e. \<not> other_parser_call fmt e) (snd (format_output env s (Some fmt)))
       \<and> (fst (fetch_baseline env fs p remote) = Inr content \<longrightarrow>
            fst (load_baseline env fs p (Some fmt) remote) = strict_parse env fmt content)
       \<and> list_all (\<lambda>e. \<not> other_parser_call fmt e)
            (snd (load_baseline env fs p (Some fmt) remote))"
proof -
  have ny: "\<not> (''json'' = ''yaml'')" by simp
  from assms show ?thesis
  proof
    assume "fmt = ''yaml''"
    then show ?thesis
      using format_output_yaml(1)[of env s] format_output_yaml(2)[of env s]
        load_baseline_yaml(1)[of env fs p remote content] load_baseline_yaml(2)[of env fs p remote]
      by (simp add: other_parser_call_def)
  next
    assume "fmt = ''json''"
    then show ?thesis
      using format_output_json(1)[of env s] format_output_json(2)[of env s]
        load_baseline_json(1)[of env fs p remote content] load_baseline_json(2)[of env fs p remote] ny
      by (simp add: other_parser_call_def)
  qed
qed

theorem explicit_format_is_strict_witness:
  "fst (format_output sample_env ''a: 1'' (Some ''json'')) = PyNone \<and>
   strict_parse sample_env ''json'' ''a: 1'' = PyNone \<and>
   yaml_safe_load sample_env ''a: 1'' = Inr (Mapping [(''a'', Scalar (SInt 1))]) \<and>
   list_all (\<lambda>e. \<not> other_parser_call ''json'' e)
     (snd (format_output sample_env ''a: 1'' (Some ''json''))) \<and>
   fst (load_baseline sample_env sample_fs ''baseline.yaml'' (Some ''json'') False) = PyNone"
proof -
  have f: "''json'' = ''yaml'' \<or> ''json'' = ''json''" by simp
  have sp: "strict_parse sample_env ''json'' ''a: 1'' = PyNone"
    by (simp add: strict_parse_def sample_defs)
  have y: "yaml_safe_load sample_env ''a: 1'' = Inr (Mapping [(''a'', Scalar (SInt 1))])"
    by (simp add: sample_defs)
  have fb: "fst (fetch_baseline sample_env sample_fs ''baseline.yaml'' False) = Inr ''a: 1''"
    by (simp add: fetch_baseline_def sample_defs)
  from explicit_format_is_strict[OF f, where env = sample_env and s = "''a: 1''" and fs = sample_fs
      and p = "''baseline.yaml''" and remote = False and content = "''a: 1''"]
  show ?thesis by (simp add: sp y fb)
qed

lemma endswith_last:
  assumes "endswith s suf" and "suf \<noteq> []"
  shows "last s = last suf"
proof -
  from assms have len: "length suf \<le> length s" and d: "drop (length s - length suf) s = suf"
    by (simp_all add: endswith_def)
  from assms(2) len have "length s - length suf < length s"
    by (cases suf) auto
  then have "last (drop (length s - length suf) s) = last s"
    by (rule last_drop)
  with d show ?thesis by simp
qed

lemma json_extension_format:
  assumes "endswith (lower baseline_path) ''.json''"
  shows "baseline_format baseline_path None = ''json''"
proof -
  have l: "last (lower baseline_path) = CHR ''n''"
    using endswith_last[OF assms] by simp
  have "\<not> endswith (lower baseline_path) ''.yaml''"
    using endswith_last[of "lower baseline_path" "''.yaml''"] l by auto
  moreover have "\<not> endswith (lower baseline_path) ''.yml''"
    using endswith_last[of "lower baseline_path" "''.yml''"] l by auto
  ultimately show ?thesis using assms by (simp add: baseline_format_def)
qed

lemma load_baseline_json_extension:
  assumes "endswith (lower baseline_path) ''.json''"
  shows "fst (fetch_baseline env fs baseline_path remote) = Inr content \<Longrightarrow>
     fst (load_baseline env fs baseline_path None remote) = strict_parse env ''json'' content"
    and "list_all (\<lambda>e. \<not> is_yaml_call e) (snd (load_baseline env fs baseline_path None remote))"
  using json_extension_format[OF assms]
  by (auto simp: load_baseline_def fetch_baseline_def strict_parse_def
      handlers_not_parser_calls split: sum.splits if_splits)

lemma early_before_report: "early e \<Longrightarrow> before_report e"
  by (cases e)
    (auto simp: early_def before_report_def drift_detected_def no_drift_detected_def
      is_parser_call_def)


lemma diff_call_before_report: "is_diff_call e \<Longrightarrow> before_report e"
  by (cases e) (auto simp: before_report_def drift_detected_def no_drift_detected_def)

lemma running_before_report: "before_report (Log INFO ''Running configuration check...'')"
  by (simp add: before_report_def drift_detected_def no_drift_detected_def)


lemma early_list_before_report:
  assumes "list_all early evs"
  shows "list_all before_report evs"
  using assms by (rule list.pred_mono_strong) (rule early_before_report)

lemma report_differences_drift:
  "(drift_detected \<in> set (snd (report_differences env fs dd out))) = truthy_diff dd"
  by (auto simp: report_differences_def save_differences_def drift_detected_def Let_def
      split: prod.splits option.splits)

lemma report_differences_no_drift:
  "(no_drift_detected \<in> set (snd (report_differences env fs dd out))) = (\<not> truthy_diff dd)"
  by (auto simp: report_differences_def save_differences_def no_drift_detected_def Let_def
      split: prod.splits option.splits)







lemma before_report_list:
  assumes "list_all before_report pre"
  shows "\<not> list_ex is_write pre" and "drift_detected \<notin> set pre"
    and "no_drift_detected \<notin> set pre" and "WriteFile p \<notin> set pre"
  using assms by (induction pre) (auto simp: before_report_def)



text \<open>The sample cycle whose baseline differs from the command output, with and without an output path.\<close>

lemma sample_run: "run_command sample_env ''cat /etc/config.txt'' =
    (Some ''a: 1'', [Popen ''cat /etc/config.txt''])"
  by (simp add: run_command_def sample_defs strip_def isspace_def)

lemma sample_current: "format_output sample_env ''a: 1'' None =
    (Mapping [(''a'', Scalar (SInt 1))], [YamlSafeLoad ''a: 1''])"
  by (simp add: format_output_def sample_defs)

lemma sample_changed: "load_baseline sample_env sample_fs ''changed.yaml'' None False =
    (Mapping [(''a'', Scalar (SInt 2))], [OpenRead ''changed.yaml'', YamlSafeLoad ''a: 2''])"
  by (simp add: load_baseline_def fetch_baseline_def baseline_format_def endswith_def
      lower_def lower_char_def sample_defs)

lemma sample_same: "load_baseline sample_env sample_fs ''baseline.yaml'' None False =
    (Mapping [(''a'', Scalar (SInt 1))], [OpenRead ''baseline.yaml'', YamlSafeLoad ''a: 1''])"
  by (simp add: load_baseline_def fetch_baseline_def baseline_format_def endswith_def
      lower_def lower_char_def sample_defs)

lemma sample_diff_changed:
  "deep_diff sample_env (Mapping [(''a'', Scalar (SInt 2))]) (Mapping [(''a'', Scalar (SInt 1))]) =
     Inr [Entry [''a''] ValueChanged (Some (Scalar (SInt 2))) (Some (Scalar (SInt 1)))]"
  by (simp add: sample_defs)

lemma sample_diff_same:
  "deep_diff sample_env (Mapping [(''a'', Scalar (SInt 1))]) (Mapping [(''a'', Scalar (SInt 1))]) =
     Inr []"
  by (simp add: sample_defs)






text \<open>
  C7. In a cycle that reaches the comparison, where the diff library returns the
  difference \<open>d\<close>, drift is reported exactly when \<open>d\<close> has an entry, and the message
  \<open>No configuration drift detected.\<close> is logged exactly when \<open>d\<close> is empty: it is then the
  last event of the cycle.
\<close>

theorem drift_verdict:
  assumes "fst (run_command env command) = Some s"
    and "fst (format_output env s format) = cur" and "cur \<noteq> PyNone"
    and "fst (load_baseline env fs baseline_path format remote) = base" and "base \<noteq> PyNone"
    and "deep_diff env base cur = Inr d"
  shows "(drift_detected \<in>
            set (snd (check_configuration env fs command baseline_path output_path format remote)))
          = (d \<noteq> [])
       \<and> (no_drift_detected \<in>
            set (snd (check_configuration env fs command baseline_path output_path format remote)))
          = (d = [])
       \<and> (d = [] \<longrightarrow>
            last (snd (check_configuration env fs command baseline_path output_path format remote))
              = no_drift_detected)"
proof -
  obtain ev1 where rc: "run_command env command = (Some s, ev1)"
    using assms(1) by (cases "run_command env command") auto
  obtain ev2 where fo: "format_output env s format = (cur, ev2)"
    using assms(2) by (cases "format_output env s format") auto
  obtain ev3 where lb: "load_baseline env fs baseline_path format remote = (base, ev3)"
    using assms(4) by (cases "load_baseline env fs baseline_path format remote") auto
  have cmp: "compare_configurations env base cur = (Some d, [DeepDiffCall base cur])"
    using assms(3,5,6) by (simp add: compare_configurations_def)
  have rep: "report_differences env fs (Some d) output_path =
               (fst (report_differences env fs (Some d) output_path),
                snd (report_differences env fs (Some d) output_path))"
    by simp
  let ?pre = "Log INFO ''Running configuration check...'' # ev1 @ ev2 @ ev3 @ [DeepDiffCall base cur]"
  let ?ev5 = "snd (report_differences env fs (Some d) output_path)"
  have cc: "snd (check_configuration env fs command baseline_path output_path format remote) =
              ?pre @ ?ev5"
    using check_configuration_compared[OF rc fo assms(3) lb assms(5) cmp rep] by simp
  have b1: "list_all before_report ev1"
    using early_list_before_report[OF run_command_early[of env command]] rc by simp
  have b2: "list_all before_report ev2"
    using early_list_before_report[OF format_output_early[of env s format]] fo by simp
  have b3: "list_all before_report ev3"
    using early_list_before_report[OF load_baseline_early[of env fs baseline_path format remote]] lb
    by simp
  have pre: "list_all before_report ?pre"
    using b1 b2 b3 by (simp add: running_before_report diff_call_before_report)
  note nv = before_report_list(2,3)[OF pre]
  have dr: "(drift_detected \<in> set (?pre @ ?ev5)) = (d \<noteq> [])"
    using nv(1) report_differences_drift[of env fs "Some d" output_path] by simp
  have nd: "(no_drift_detected \<in> set (?pre @ ?ev5)) = (d = [])"
    using nv(2) report_differences_no_drift[of env fs "Some d" output_path] by simp
  have la: "d = [] \<longrightarrow> last (?pre @ ?ev5) = no_drift_detected"
    by (simp add: report_differences_def no_drift_detected_def)
  show ?thesis unfolding cc using dr nd la by blast
qed

theorem drift_verdict_witness:
  "fst (run_command sample_env ''cat /etc/config.txt'') = Some ''a: 1'' \<and>
   fst (format_output sample_env ''a: 1'' None) = Mapping [(''a'', Scalar (SInt 1))] \<and>
   fst (load_baseline sample_env sample_fs ''changed.yaml'' None False) =
     Mapping [(''a'', Scalar (SInt 2))] \<and>
   deep_diff sample_env (Mapping [(''a'', Scalar (SInt 2))]) (Mapping [(''a'', Scalar (SInt 1))]) =
     Inr [Entry [''a''] ValueChanged (Some (Scalar (SInt 2))) (Some (Scalar (SInt 1)))] \<and>
   drift_detected \<in> set (snd (check_configuration sample_env sample_fs ''cat /etc/config.txt''
      ''changed.yaml'' None None False)) \<and>
   no_drift_detected \<notin> set (snd (check_configuration sample_env sample_fs ''cat /etc/config.txt''
      ''changed.yaml'' None None False)) \<and>
   fst (load_baseline sample_env sample_fs ''baseline.yaml'' None False) =
     Mapping [(''a'', Scalar (SInt 1))] \<and>
   deep_diff sample_env (Mapping [(''a'', Scalar (SInt 1))]) (Mapping [(''a'', Scalar (SInt 1))]) =
     Inr [] \<and>
   last (snd (check_configuration sample_env sample_fs ''cat /etc/config.txt''
      ''baseline.yaml'' None None False)) = no_drift_detected"
proof -
  have h1: "fst (run_command sample_env ''cat /etc/config.txt'') = Some ''a: 1''"
    by (simp add: sample_run)
  have h2: "fst (format_output sample_env ''a: 1'' None) = Mapping [(''a'', Scalar (SInt 1))]"
    by (simp add: sample_current)
  have h3: "Mapping [(''a'', Scalar (SInt 1))] \<noteq> PyNone" by simp
  have h4: "fst (load_baseline sample_env sample_fs ''changed.yaml'' None False) =
     Mapping [(''a'', Scalar (SInt 2))]"
    by (simp add: sample_changed)
  have h5: "Mapping [(''a'', Scalar (SInt 2))] \<noteq> PyNone" by simp
  have h4': "fst (load_baseline sample_env sample_fs ''baseline.yaml'' None False) =
     Mapping [(''a'', Scalar (SInt 1))]"
    by (simp add: sample_same)
  from drift_verdict[OF h1 h2 h3 h4 h5 sample_diff_changed, of None]
    drift_verdict[OF h1 h2 h3 h4' h3 sample_diff_same, of None]
    h1 h2 h4 h4' sample_diff_changed sample_diff_same
  show ?thesis by simp
qed

lemma remove_match_found:
  "canon x \<in># mset (map canon ys) \<Longrightarrow>
     \<exists>ys'. remove_match x ys = Some ys' \<and>
           mset (map canon ys') = mset (map canon ys) - {#canon x#}"
proof (induction ys)
  case Nil
  then show ?case by simp
next
  case (Cons y ys)
  show ?case
  proof (cases "canon x = canon y")
    case True
    then show ?thesis by simp
  next
    case False
    with Cons.prems have "canon x \<in># mset (map canon ys)" by simp
    from Cons.IH[OF this] obtain ys' where
      r: "remove_match x ys = Some ys'"
      and m: "mset (map canon ys') = mset (map canon ys) - {#canon x#}"
      by blast
    from False r m show ?thesis by simp
  qed
qed

lemma unmatched_empty:
  "mset (map canon xs) \<subseteq># mset (map canon ys) \<Longrightarrow> unmatched xs ys = []"
proof (induction xs arbitrary: ys)
  case Nil
  then show ?case by simp
next
  case (Cons x xs)
  from Cons.prems have mem: "canon x \<in># mset (map canon ys)"
    and sub: "mset (map canon xs) \<subseteq># mset (map canon ys) - {#canon x#}"
    by (simp_all add: insert_subset_eq_iff)
  from remove_match_found[OF mem] obtain ys' where
    r: "remove_match x ys = Some ys'"
    and m: "mset (map canon ys') = mset (map canon ys) - {#canon x#}"
    by blast
  from sub m have "mset (map canon xs) \<subseteq># mset (map canon ys')" by simp
  from Cons.IH[OF this] r show ?case by simp
qed

lemma compare_keys_empty:
  "(\<And>kv. kv \<in> set as \<Longrightarrow> \<exists>w. map_of bs (fst kv) = Some w \<and> compare (p @ [fst kv]) (snd kv) w = [])
     \<Longrightarrow> compare_keys p as bs = []"
proof (induction as)
  case Nil
  then show ?case by simp
next
  case (Cons kv as)
  from Cons.prems[of kv] obtain w where
    "map_of bs (fst kv) = Some w" "compare (p @ [fst kv]) (snd kv) w = []"
    by auto
  moreover have "compare_keys p as bs = []"
    by (rule Cons.IH) (simp add: Cons.prems)
  ultimately show ?case by simp
qed


lemma canon_pairs_set:
  assumes "fset_of_list (map (map_prod id canon) as) = fset_of_list (map (map_prod id canon) bs)"
  shows "map_prod id canon ` set as = map_prod id canon ` set bs"
proof -
  from assms have "fset (fset_of_list (map (map_prod id canon) as)) =
      fset (fset_of_list (map (map_prod id canon) bs))"
    by simp
  then show ?thesis by (simp add: fset_of_list.rep_eq)
qed

lemma canon_pair_transfer:
  assumes "map_prod id canon ` set as = map_prod id canon ` set bs" and "(k, v) \<in> set as"
  shows "\<exists>w. (k, w) \<in> set bs \<and> canon w = canon v"
proof -
  from assms(2) have "map_prod id canon (k, v) \<in> map_prod id canon ` set as"
    by (rule imageI)
  with assms(1) have "(k, canon v) \<in> map_prod id canon ` set bs" by simp
  then obtain kw where mem: "kw \<in> set bs" and img: "(k, canon v) = map_prod id canon kw"
    by (rule imageE)
  obtain k' w where kw_eq: "kw = (k', w)" by (cases kw)
  from img kw_eq have "k' = k" and "canon w = canon v" by simp_all
  with mem kw_eq show ?thesis by auto
qed

lemma distinct_keys_value:
  "distinct (map fst as) \<Longrightarrow> (k, v) \<in> set as \<Longrightarrow> (k, v') \<in> set as \<Longrightarrow> v = v'"
  by (metis map_of_eq_Some_iff option.inject)

lemma canon_eq_compare_empty:
  "wf_node a \<Longrightarrow> canon a = canon b \<Longrightarrow> compare p a b = []"
proof (induction a arbitrary: b p)
  case (Scalar x)
  then show ?case by (cases b) simp_all
next
  case (Sequence xs)
  from Sequence.prems(2) obtain ys where b: "b = Sequence ys"
    and m: "mset (map canon xs) = mset (map canon ys)"
    by (cases b) simp_all
  from m have "unmatched xs ys = []" "unmatched ys xs = []"
    by (simp_all add: unmatched_empty)
  with b show ?case by simp
next
  case (Mapping as)
  from Mapping.prems(2) obtain bs where b: "b = Mapping bs"
    and f: "fset_of_list (map (map_prod id canon) as) = fset_of_list (map (map_prod id canon) bs)"
    by (cases b) simp_all
  note eq = canon_pairs_set[OF f]
  from Mapping.prems(1) have dist: "distinct (map fst as)"
    and wf: "\<And>kv. kv \<in> set as \<Longrightarrow> wf_node (snd kv)"
    by (simp_all add: list_all_iff)
  have keys: "compare_keys p as bs = []"
  proof (rule compare_keys_empty)
    fix kv assume kv: "kv \<in> set as"
    obtain k v where kv_eq: "kv = (k, v)" by (cases kv)
    from canon_pair_transfer[OF eq] kv kv_eq obtain w0 where "(k, w0) \<in> set bs" by blast
    then obtain w where mw: "map_of bs k = Some w"
      by (metis weak_map_of_SomeI)
    then have "(k, w) \<in> set bs" by (rule map_of_SomeD)
    from canon_pair_transfer[OF eq[symmetric] this] obtain v' where
      v': "(k, v') \<in> set as" and c: "canon v' = canon w"
      by blast
    from distinct_keys_value[OF dist v'] kv kv_eq have "v' = v" by simp
    with c have cw: "canon v = canon w" by simp
    have "v \<in> Basic_BNFs.snds kv" by (simp add: kv_eq)
    from Mapping.IH[OF kv this wf[OF kv, unfolded kv_eq snd_conv] cw]
    have "compare (p @ [k]) v w = []" .
    with mw kv_eq
    show "\<exists>w. map_of bs (fst kv) = Some w \<and> compare (p @ [fst kv]) (snd kv) w = []"
      by simp
  qed
  have added: "filter (\<lambda>kw. map_of as (fst kw) = None) bs = []"
  proof -
    have "map_of as (fst kw) \<noteq> None" if "kw \<in> set bs" for kw
    proof -
      obtain k w where kw_eq: "kw = (k, w)" by (cases kw)
      from canon_pair_transfer[OF eq[symmetric]] that kw_eq obtain v where "(k, v) \<in> set as"
        by blast
      then have "k \<in> fst ` set as" by force
      then show ?thesis by (simp add: kw_eq map_of_eq_None_iff)
    qed
    then show ?thesis by (simp add: filter_empty_conv)
  qed
  from b keys added show ?case by simp
qed

lemma reordered_canon: "reordered a b \<Longrightarrow> canon a = canon b"
proof (induction rule: reordered.induct)
  case (reordered_scalar s)
  show ?case by simp
next
  case (reordered_mapping as bs)
  then have "map (map_prod id canon) as = map (map_prod id canon) bs"
    by (induction as bs rule: list_all2_induct) (auto simp: prod_eq_iff)
  then show ?case by simp
next
  case (reordered_sequence xs zs ys)
  from reordered_sequence(1) have "map canon xs = map canon zs"
    by (induction xs zs rule: list_all2_induct) auto
  moreover from reordered_sequence(2) have "mset (map canon zs) = mset (map canon ys)"
    by (metis mset_map)
  ultimately show ?case by simp
qed


lemma compare_configurations_spec_empty:
  assumes "deep_diff env = deep_diff_spec" and "compare [] a b = []"
  shows "\<not> truthy_diff (fst (compare_configurations env a b))"
  using assms by (simp add: compare_configurations_def deep_diff_spec_def)

text \<open>
  C5. For a well-formed tree and a tree that differs from it only in the order of the
  items inside sequences, at any depth, the comparison of section 4.2 yields no entry;
  \<open>compare_configurations\<close>, run with that comparison as its diff library, returns a
  result that reports no drift.
\<close>

theorem reordered_sequences_no_drift:
  assumes "wf_node a" and "reordered a b"
  shows "compare p a b = []
       \<and> (deep_diff env = deep_diff_spec \<longrightarrow>
            \<not> truthy_diff (fst (compare_configurations env a b)))"
proof -
  have c: "canon a = canon b" by (rule reordered_canon[OF assms(2)])
  have "compare p a b = []" "compare [] a b = []"
    by (rule canon_eq_compare_empty[OF assms(1) c])+
  then show ?thesis using compare_configurations_spec_empty[of env a b] by simp
qed

theorem reordered_sequences_no_drift_witness:
  "wf_node (Mapping [(''items'', Sequence [Scalar (SInt 1), Scalar (SInt 2), Scalar (SInt 3)])]) \<and>
   reordered (Mapping [(''items'', Sequence [Scalar (SInt 1), Scalar (SInt 2), Scalar (SInt 3)])])
             (Mapping [(''items'', Sequence [Scalar (SInt 3), Scalar (SInt 2), Scalar (SInt 1)])]) \<and>
   compare [] (Mapping [(''items'', Sequence [Scalar (SInt 1), Scalar (SInt 2), Scalar (SInt 3)])])
              (Mapping [(''items'', Sequence [Scalar (SInt 3), Scalar (SInt 2), Scalar (SInt 1)])]) = [] \<and>
   \<not> truthy_diff (fst (compare_configurations sample_env
      (Mapping [(''items'', Sequence [Scalar (SInt 1), Scalar (SInt 2), Scalar (SInt 3)])])
      (Mapping [(''items'', Sequence [Scalar (SInt 3), Scalar (SInt 2), Scalar (SInt 1)])])))"
proof -
  let ?xs = "[Scalar (SInt 1), Scalar (SInt 2), Scalar (SInt 3)]"
  let ?ys = "[Scalar (SInt 3), Scalar (SInt 2), Scalar (SInt 1)]"
  have w: "wf_node (Mapping [(''items'', Sequence ?xs)])" by simp
  have "list_all2 reordered ?xs ?xs"
    by (simp add: reordered_scalar)
  moreover have "mset ?xs = mset ?ys" by simp
  ultimately have "reordered (Sequence ?xs) (Sequence ?ys)"
    by (rule reordered_sequence)
  then have r: "reordered (Mapping [(''items'', Sequence ?xs)]) (Mapping [(''items'', Sequence ?ys)])"
    by (intro reordered_mapping) simp
  have d: "deep_diff sample_env = deep_diff_spec" by (simp add: sample_env_def)
  from reordered_sequences_no_drift[OF w r, of "[]" sample_env] w r d
  show ?thesis by simp
qed

text \<open>
  C6. The comparison of a well-formed tree with itself yields no entry.
\<close>

theorem compare_reflexive:
  assumes "wf_node t"
  shows "compare p t t = []
       \<and> (deep_diff env = deep_diff_spec \<longrightarrow>
            \<not> truthy_diff (fst (compare_configurations env t t)))"
proof -
  have "compare p t t = []" "compare [] t t = []"
    by (rule canon_eq_compare_empty[OF assms refl])+
  then show ?thesis using compare_configurations_spec_empty[of env t t] by simp
qed

theorem compare_reflexive_witness:
  "wf_node (Mapping [(''name'', Scalar (SStr ''web'')),
                     (''items'', Sequence [Scalar (SInt 1), Scalar (SInt 2), Scalar (SInt 1)])]) \<and>
   compare [] (Mapping [(''name'', Scalar (SStr ''web'')),
                        (''items'', Sequence [Scalar (SInt 1), Scalar (SInt 2), Scalar (SInt 1)])])
              (Mapping [(''name'', Scalar (SStr ''web'')),
                        (''items'', Sequence [Scalar (SInt 1), Scalar (SInt 2), Scalar (SInt 1)])]) = []"
proof -
  have w: "wf_node (Mapping [(''name'', Scalar (SStr ''web'')),
                     (''items'', Sequence [Scalar (SInt 1), Scalar (SInt 2), Scalar (SInt 1)])])"
    by simp
  from compare_reflexive[OF w, of "[]" sample_env] w
  show ?thesis by simp
qed

text \<open>Without unique keys the comparison of a mapping with itself is not empty.\<close>

lemma compare_duplicate_keys:
  "compare [] (Mapping [(''a'', Scalar (SInt 1)), (''a'', Scalar (SInt 2))])
              (Mapping [(''a'', Scalar (SInt 1)), (''a'', Scalar (SInt 2))]) =
     [Entry [''a''] ValueChanged (Some (Scalar (SInt 2))) (Some (Scalar (SInt 1)))]"
  by simp

lemma format_output_none_iff:
  "(fst (format_output env s format) = PyNone) =
     (parses_to_null env format s \<or> unparseable env format s)"
  by (auto simp: format_output_def parses_to_null_def unparseable_def
      split: sum.splits exn.splits)

text \<open>
  C9. For every format hint, a document that the parser consulted by \<open>format_output\<close>
  returns as null and a document that cannot be parsed give the same result at the
  interface of \<open>format_output\<close>: both return \<open>None\<close>, and \<open>None\<close> is returned in no other
  case. The check cycle sees only that value, so it aborts with the same parse failure in
  both cases, the file system unchanged and the baseline never loaded.
\<close>

theorem null_document_is_parse_failure:
  assumes "fst (run_command env c1) = Some s1" and "parses_to_null env format s1"
    and "fst (run_command env c2) = Some s2" and "unparseable env format s2"
  shows "fst (format_output env s1 format) = PyNone
       \<and> fst (format_output env s2 format) = PyNone
       \<and> check_configuration env fs c1 baseline_path output_path format remote =
           (fs, Log INFO ''Running configuration check...'' # snd (run_command env c1) @
                snd (format_output env s1 format) @ [parse_failed])
       \<and> check_configuration env fs c2 baseline_path output_path format remote =
           (fs, Log INFO ''Running configuration check...'' # snd (run_command env c2) @
                snd (format_output env s2 format) @ [parse_failed])
       \<and> (fst (format_output env s format) = PyNone) =
           (parses_to_null env format s \<or> unparseable env format s)"
proof -
  have n1: "fst (format_output env s1 format) = PyNone"
    using assms(2) by (simp add: format_output_none_iff)
  have n2: "fst (format_output env s2 format) = PyNone"
    using assms(4) by (simp add: format_output_none_iff)
  show ?thesis
    using n1 n2 check_configuration_parse_failed'[OF assms(1) n1]
      check_configuration_parse_failed'[OF assms(3) n2]
      format_output_none_iff[of env s format] by simp
qed


theorem null_document_is_parse_failure_witness:
  "fst (run_command sample_env ''echo null'') = Some ''null'' \<and>
   fst (run_command sample_env ''echo {'') = Some ''{'' \<and>
   parses_to_null sample_env None ''null'' \<and> unparseable sample_env None ''{'' \<and>
   parses_to_null sample_env (Some ''json'') ''null'' \<and>
   unparseable sample_env (Some ''json'') ''{'' \<and>
   check_configuration sample_env sample_fs ''echo null'' ''baseline.yaml'' None None False =
     (sample_fs, [Log INFO ''Running configuration check...'', Popen ''echo null'',
                  YamlSafeLoad ''null'', parse_failed]) \<and>
   check_configuration sample_env sample_fs ''echo {'' ''baseline.yaml'' None None False =
     (sample_fs, [Log INFO ''Running configuration check...'', Popen ''echo {'',
                  YamlSafeLoad ''{'', JsonLoads ''{'', Log ERROR autodetect_failed,
                  parse_failed]) \<and>
   check_configuration sample_env sample_fs ''echo null'' ''baseline.yaml'' None
       (Some ''json'') False =
     (sample_fs, [Log INFO ''Running configuration check...'', Popen ''echo null'',
                  JsonLoads ''null'', parse_failed]) \<and>
   check_configuration sample_env sample_fs ''echo {'' ''baseline.yaml'' None
       (Some ''json'') False =
     (sample_fs, [Log INFO ''Running configuration check...'', Popen ''echo {'',
                  JsonLoads ''{'', Log ERROR ''Error parsing JSON: Expecting value'',
                  parse_failed])"
proof -
  have rc1: "run_command sample_env ''echo null'' = (Some ''null'', [Popen ''echo null''])"
    by (simp add: run_command_def sample_defs strip_def isspace_def)
  have rc2: "run_command sample_env ''echo {'' = (Some ''{'', [Popen ''echo {''])"
    by (simp add: run_command_def sample_defs strip_def isspace_def)
  have h1: "fst (run_command sample_env ''echo null'') = Some ''null''" by (simp add: rc1)
  have h2: "fst (run_command sample_env ''echo {'') = Some ''{''" by (simp add: rc2)
  have p1: "parses_to_null sample_env None ''null''"
    by (simp add: parses_to_null_def sample_defs)
  have u1: "unparseable sample_env None ''{''"
    by (simp add: unparseable_def sample_defs)
  have p2: "parses_to_null sample_env (Some ''json'') ''null''"
    by (simp add: parses_to_null_def sample_defs)
  have u2: "unparseable sample_env (Some ''json'') ''{''"
    by (simp add: unparseable_def sample_defs)
  have fo1: "format_output sample_env ''null'' None = (PyNone, [YamlSafeLoad ''null''])"
    by (simp add: format_output_def sample_defs)
  have fo2: "format_output sample_env ''{'' None =
               (PyNone, [YamlSafeLoad ''{'', JsonLoads ''{'', Log ERROR autodetect_failed])"
    by (simp add: format_output_def sample_defs)
  have fo3: "format_output sample_env ''null'' (Some ''json'') = (PyNone, [JsonLoads ''null''])"
    by (simp add: format_output_def sample_defs)
  have fo4: "format_output sample_env ''{'' (Some ''json'') =
               (PyNone, [JsonLoads ''{'', Log ERROR ''Error parsing JSON: Expecting value''])"
    by (simp add: format_output_def sample_defs)
  from null_document_is_parse_failure[OF h1 p1 h2 u1, of sample_fs "''baseline.yaml''" None False]
    null_document_is_parse_failure[OF h1 p2 h2 u2, of sample_fs "''baseline.yaml''" None False]
    h1 h2 p1 u1 p2 u2
  show ?thesis by (simp add: rc1 rc2 fo1 fo2 fo3 fo4)
qed

lemma run_command_output_events:
  "fst (run_command env command) = Some s \<Longrightarrow> snd (run_command env command) = [Popen command]"
  by (auto simp: run_command_def split: sum.splits if_splits)

lemma load_baseline_handler_not_parse_failed:
  "Log ERROR ''Failed to parse current configuration. Aborting'' \<noteq> load_baseline_handler p e"
  "load_baseline_handler p e \<noteq> Log ERROR ''Failed to parse current configuration. Aborting''"
  by (cases e; simp)+

lemma load_baseline_not_parse_failed:
  "parse_failed \<notin> set (snd (load_baseline env fs p format remote))"
  by (auto simp: load_baseline_def fetch_baseline_def Let_def parse_failed_def
      load_baseline_handler_not_parse_failed split: sum.splits if_splits)

lemma compare_configurations_not_parse_failed:
  "parse_failed \<notin> set (snd (compare_configurations env b c))"
  by (auto simp: compare_configurations_def parse_failed_def split: sum.splits)

lemma report_differences_not_parse_failed:
  "parse_failed \<notin> set (snd (report_differences env fs dd out))"
  by (auto simp: report_differences_def save_differences_def parse_failed_def Let_def
      split: prod.splits option.splits)

lemma check_configuration_not_parse_failed:
  assumes "fst (run_command env command) = Some s"
    and "fst (format_output env s format) \<noteq> PyNone"
    and "parse_failed \<notin> set (snd (format_output env s format))"
  shows "parse_failed \<notin>
           set (snd (check_configuration env fs command baseline_path output_path format remote))"
proof -
  have ev1: "snd (run_command env command) = [Popen command]"
    by (rule run_command_output_events[OF assms(1)])
  then have rc: "run_command env command = (Some s, [Popen command])"
    using assms(1) by (cases "run_command env command") simp
  obtain cur ev2 where fo: "format_output env s format = (cur, ev2)"
    by (cases "format_output env s format") auto
  have cur: "cur \<noteq> PyNone" using assms(2) fo by simp
  have n2: "parse_failed \<notin> set ev2" using assms(3) fo by simp
  obtain base ev3 where lb: "load_baseline env fs baseline_path format remote = (base, ev3)"
    by (cases "load_baseline env fs baseline_path format remote") auto
  have n3: "parse_failed \<notin> set ev3"
    using load_baseline_not_parse_failed[of env fs baseline_path format remote] lb by simp
  have n0: "Log INFO ''Running configuration check...'' \<noteq> parse_failed"
    "Popen command \<noteq> parse_failed" "baseline_failed \<noteq> parse_failed"
    by (simp_all add: parse_failed_def baseline_failed_def)
  show ?thesis
  proof (cases "base = PyNone")
    case True
    show ?thesis
      using check_configuration_baseline_failed[OF rc fo cur lb[unfolded True], of output_path]
        n0 n2 n3 by auto
  next
    case False
    obtain d ev4 where cmp: "compare_configurations env base cur = (d, ev4)"
      by (cases "compare_configurations env base cur") auto
    obtain fs' ev5 where rep: "report_differences env fs d output_path = (fs', ev5)"
      by (cases "report_differences env fs d output_path") auto
    have n4: "parse_failed \<notin> set ev4"
      using compare_configurations_not_parse_failed[of env base cur] cmp by simp
    have n5: "parse_failed \<notin> set ev5"
      using report_differences_not_parse_failed[of env fs d output_path] rep by simp
    show ?thesis
      using check_configuration_compared[OF rc fo cur lb False cmp rep] n0 n2 n3 n4 n5 by auto
  qed
qed

text \<open>
  C8 (as amended). When YAML parses the command output to a scalar other than null,
  \<open>format_output\<close> without a format hint returns that scalar after the one YAML call, and
  the cycle does not treat it as a parse failure: the parse failure is nowhere in its
  trace, and it goes on to fetch the baseline.
\<close>

theorem bare_scalar_parses:
  assumes "yaml_safe_load env s = Inr (Scalar v)" and "v \<noteq> SNull"
    and "fst (run_command env command) = Some s"
  shows "format_output env s None = (Scalar v, [YamlSafeLoad s])
       \<and> parse_failed \<notin>
           set (snd (check_configuration env fs command baseline_path output_path None remote))
       \<and> list_ex is_baseline_fetch
           (snd (check_configuration env fs command baseline_path output_path None remote))"
proof -
  have fo: "format_output env s None = (Scalar v, [YamlSafeLoad s])"
    using assms(1) by (simp add: format_output_def)
  have ne: "fst (format_output env s None) \<noteq> PyNone"
    using assms(2) by (simp add: fo)
  have np: "parse_failed \<notin> set (snd (format_output env s None))"
    by (simp add: fo parse_failed_def)
  show ?thesis
    using fo check_configuration_loads[OF assms(3) ne]
      check_configuration_not_parse_failed[OF assms(3) ne np] by simp
qed

theorem bare_scalar_parses_witness:
  "yaml_safe_load sample_env ''hello'' = Inr (Scalar (SStr ''hello'')) \<and>
   fst (run_command sample_env ''echo hello'') = Some ''hello'' \<and>
   format_output sample_env ''hello'' None = (Scalar (SStr ''hello''), [YamlSafeLoad ''hello'']) \<and>
   parse_failed \<notin>
     set (snd (check_configuration sample_env sample_fs ''echo hello'' ''baseline.yaml'' None None False)) \<and>
   list_ex is_baseline_fetch
     (snd (check_configuration sample_env sample_fs ''echo hello'' ''baseline.yaml'' None None False))"
proof -
  have y: "yaml_safe_load sample_env ''hello'' = Inr (Scalar (SStr ''hello''))"
    by (simp add: sample_defs)
  have rc: "fst (run_command sample_env ''echo hello'') = Some ''hello''"
    by (simp add: run_command_def sample_defs strip_def isspace_def)
  have ne: "SStr ''hello'' \<noteq> SNull" by simp
  from bare_scalar_parses[OF y ne rc, of sample_fs "''baseline.yaml''" None False] y rc
  show ?thesis by simp
qed

text \<open>
  The claim as stated fails for the bare word \<open>null\<close>: YAML parses it to the
  scalar null, which is Python's \<open>None\<close>, and the cycle reports a parse failure.
\<close>

theorem bare_scalar_counterexample:
  "yaml_safe_load sample_env ''null'' = Inr (Scalar SNull) \<and>
   fst (run_command sample_env ''echo null'') = Some ''null'' \<and>
   fst (format_output sample_env ''null'' None) = PyNone \<and>
   check_configuration sample_env sample_fs ''echo null'' ''baseline.yaml'' None None False =
     (sample_fs, [Log INFO ''Running configuration check...'', Popen ''echo null'',
                  YamlSafeLoad ''null'', parse_failed])"
proof -
  have y: "yaml_safe_load sample_env ''null'' = Inr (Scalar SNull)"
    by (simp add: sample_defs)
  have rc: "run_command sample_env ''echo null'' = (Some ''null'', [Popen ''echo null''])"
    by (simp add: run_command_def sample_defs strip_def isspace_def)
  have fo: "format_output sample_env ''null'' None = (PyNone, [YamlSafeLoad ''null''])"
    by (simp add: format_output_def y)
  show ?thesis
    using check_configuration_parse_failed[OF rc fo, of sample_fs "''baseline.yaml''" None False]
    by (simp add: y rc fo)
qed

lemma yaml_extension_not_json:
  assumes "endswith (lower baseline_path) ''.yaml'' \<or> endswith (lower baseline_path) ''.yml''"
  shows "\<not> endswith (lower baseline_path) ''.json''"
proof
  assume "endswith (lower baseline_path) ''.json''"
  then have "baseline_format baseline_path None = ''json''"
    by (rule json_extension_format)
  with assms show False by (simp add: baseline_format_def)
qed

lemma baseline_format_rule:
  "baseline_format baseline_path None =
     (if endswith (lower baseline_path) ''.json'' then ''json'' else ''yaml'')"
  using json_extension_format[of baseline_path] by (auto simp: baseline_format_def)

lemma load_baseline_autodetect:
  "fst (fetch_baseline env fs baseline_path remote) = Inr content \<Longrightarrow>
     fst (load_baseline env fs baseline_path None remote) =
       strict_parse env (baseline_format baseline_path None) content"
  "list_all (\<lambda>e. \<not> other_parser_call (baseline_format baseline_path None) e)
     (snd (load_baseline env fs baseline_path None remote))"
  unfolding baseline_format_rule
  by (auto simp: load_baseline_def fetch_baseline_def strict_parse_def other_parser_call_def
      baseline_format_rule handlers_not_parser_calls split: sum.splits if_splits)

text \<open>
  C1 (as amended). Without a format hint, \<open>load_baseline\<close> takes the format from the
  name alone: YAML for a name ending in \<open>.yaml\<close> or \<open>.yml\<close>, JSON for a name ending in
  \<open>.json\<close>, YAML for any other name. It then parses in that one format only: the result
  is what that parser returns, \<open>None\<close> when it raises, and the parser of the other format
  is never called. So a \<open>.json\<close> baseline that is not JSON fails to load without a YAML
  attempt. The fallback exists for the command output only: \<open>format_output\<close> without a
  hint tries YAML first and JSON when YAML raises a \<open>YAMLError\<close>.
\<close>

theorem baseline_autodetect_is_strict:
  assumes "fst (fetch_baseline env fs baseline_path remote) = Inr content"
  shows "(endswith (lower baseline_path) ''.yaml'' \<or> endswith (lower baseline_path) ''.yml'' \<longrightarrow>
            baseline_format baseline_path None = ''yaml'')
       \<and> (endswith (lower baseline_path) ''.json'' \<longrightarrow>
            baseline_format baseline_path None = ''json'')
       \<and> (\<not> endswith (lower baseline_path) ''.yaml'' \<and> \<not> endswith (lower baseline_path) ''.yml''
            \<and> \<not> endswith (lower baseline_path) ''.json'' \<longrightarrow>
            baseline_format baseline_path None = ''yaml'')
       \<and> fst (load_baseline env fs baseline_path None remote) =
            strict_parse env (baseline_format baseline_path None) content
       \<and> list_all (\<lambda>e. \<not> other_parser_call (baseline_format baseline_path None) e)
            (snd (load_baseline env fs baseline_path None remote))
       \<and> (endswith (lower baseline_path) ''.json'' \<and> isl (json_loads env content) \<longrightarrow>
            fst (load_baseline env fs baseline_path None remote) = PyNone \<and>
            list_all (\<lambda>e. \<not> is_yaml_call e)
              (snd (load_baseline env fs baseline_path None remote)))
       \<and> (yaml_safe_load env s = Inl (YAMLError m) \<and> json_loads env s = Inr v \<longrightarrow>
            format_output env s None = (v, [YamlSafeLoad s, JsonLoads s]))"
proof -
  have r1: "endswith (lower baseline_path) ''.yaml'' \<or> endswith (lower baseline_path) ''.yml'' \<longrightarrow>
            baseline_format baseline_path None = ''yaml''"
    by (simp add: baseline_format_def)
  have r2: "endswith (lower baseline_path) ''.json'' \<longrightarrow> baseline_format baseline_path None = ''json''"
    using json_extension_format[of baseline_path] by blast
  have r3: "\<not> endswith (lower baseline_path) ''.yaml'' \<and> \<not> endswith (lower baseline_path) ''.yml''
            \<and> \<not> endswith (lower baseline_path) ''.json'' \<longrightarrow>
            baseline_format baseline_path None = ''yaml''"
    by (simp add: baseline_format_def)
  note p = load_baseline_autodetect(1)[OF assms]
  note q = load_baseline_autodetect(2)[of baseline_path env fs remote]
  have j: "endswith (lower baseline_path) ''.json'' \<and> isl (json_loads env content) \<longrightarrow>
            fst (load_baseline env fs baseline_path None remote) = PyNone \<and>
            list_all (\<lambda>e. \<not> is_yaml_call e)
              (snd (load_baseline env fs baseline_path None remote))"
  proof
    assume a: "endswith (lower baseline_path) ''.json'' \<and> isl (json_loads env content)"
    then have f: "baseline_format baseline_path None = ''json''" using r2 by simp
    have ny: "''json'' \<noteq> ''yaml''" by simp
    from a have "strict_parse env ''json'' content = PyNone"
      by (auto simp: strict_parse_def isl_def)
    with p q f ny
    show "fst (load_baseline env fs baseline_path None remote) = PyNone \<and>
            list_all (\<lambda>e. \<not> is_yaml_call e)
              (snd (load_baseline env fs baseline_path None remote))"
      by (simp add: other_parser_call_def)
  qed
  have fb: "yaml_safe_load env s = Inl (YAMLError m) \<and> json_loads env s = Inr v \<longrightarrow>
            format_output env s None = (v, [YamlSafeLoad s, JsonLoads s])"
    by (simp add: format_output_def)
  from r1 r2 r3 p q j fb show ?thesis by blast
qed


lemma lower_baseline_json: "lower ''baseline.json'' = ''baseline.json''"
  by (simp add: lower_def lower_char_def)

lemma lower_baseline_yml: "lower ''baseline.yml'' = ''baseline.yml''"
  by (simp add: lower_def lower_char_def)

lemma lower_baseline_conf: "lower ''baseline.conf'' = ''baseline.conf''"
  by (simp add: lower_def lower_char_def)

theorem baseline_autodetect_is_strict_witness:
  "fst (fetch_baseline sample_env sample_fs ''baseline.json'' False) = Inr ''a: 1'' \<and>
   fst (fetch_baseline sample_env sample_fs ''baseline.yml'' False) = Inr ''a: 1'' \<and>
   fst (fetch_baseline sample_env sample_fs ''baseline.conf'' False) = Inr ''a: 1'' \<and>
   baseline_format ''baseline.json'' None = ''json'' \<and>
   baseline_format ''baseline.yml'' None = ''yaml'' \<and>
   baseline_format ''baseline.conf'' None = ''yaml'' \<and>
   fst (load_baseline sample_env sample_fs ''baseline.json'' None False) = PyNone \<and>
   list_all (\<lambda>e. \<not> is_yaml_call e)
     (snd (load_baseline sample_env sample_fs ''baseline.json'' None False)) \<and>
   fst (load_baseline sample_env sample_fs ''baseline.yml'' None False) =
     Mapping [(''a'', Scalar (SInt 1))] \<and>
   list_all (\<lambda>e. \<not> is_json_call e)
     (snd (load_baseline sample_env sample_fs ''baseline.yml'' None False)) \<and>
   fst (load_baseline sample_env sample_fs ''baseline.conf'' None False) =
     Mapping [(''a'', Scalar (SInt 1))] \<and>
   list_all (\<lambda>e. \<not> is_json_call e)
     (snd (load_baseline sample_env sample_fs ''baseline.conf'' None False))"
proof -
  have f1: "fst (fetch_baseline sample_env sample_fs ''baseline.json'' False) = Inr ''a: 1''"
    by (simp add: fetch_baseline_def sample_defs)
  have f2: "fst (fetch_baseline sample_env sample_fs ''baseline.yml'' False) = Inr ''a: 1''"
    by (simp add: fetch_baseline_def sample_defs)
  have f3: "fst (fetch_baseline sample_env sample_fs ''baseline.conf'' False) = Inr ''a: 1''"
    by (simp add: fetch_baseline_def sample_defs)
  have e1: "endswith (lower ''baseline.json'') ''.json''"
    by (simp add: lower_baseline_json endswith_def)
  have e2: "endswith (lower ''baseline.yml'') ''.yml''"
    by (simp add: lower_baseline_yml endswith_def)
  have e3: "\<not> endswith (lower ''baseline.conf'') ''.yaml''"
    "\<not> endswith (lower ''baseline.conf'') ''.yml''"
    "\<not> endswith (lower ''baseline.conf'') ''.json''"
    by (simp_all add: lower_baseline_conf endswith_def)
  have j: "isl (json_loads sample_env ''a: 1'')"
    by (simp add: sample_defs)
  have sy: "strict_parse sample_env ''yaml'' ''a: 1'' = Mapping [(''a'', Scalar (SInt 1))]"
    by (simp add: strict_parse_def sample_defs)
  have oy: "other_parser_call ''yaml'' = is_json_call"
    by (simp add: other_parser_call_def fun_eq_iff)
  from baseline_autodetect_is_strict[OF f1] e1 j
  have a1: "baseline_format ''baseline.json'' None = ''json''"
    "fst (load_baseline sample_env sample_fs ''baseline.json'' None False) = PyNone"
    "list_all (\<lambda>e. \<not> is_yaml_call e)
       (snd (load_baseline sample_env sample_fs ''baseline.json'' None False))"
    by blast+
  from baseline_autodetect_is_strict[OF f2] e2
  have b0: "baseline_format ''baseline.yml'' None = ''yaml''" by blast
  from baseline_autodetect_is_strict[OF f2]
  have b1: "fst (load_baseline sample_env sample_fs ''baseline.yml'' None False) =
      strict_parse sample_env (baseline_format ''baseline.yml'' None) ''a: 1''"
    "list_all (\<lambda>e. \<not> other_parser_call (baseline_format ''baseline.yml'' None) e)
       (snd (load_baseline sample_env sample_fs ''baseline.yml'' None False))"
    by blast+
  from baseline_autodetect_is_strict[OF f3] e3
  have c0: "baseline_format ''baseline.conf'' None = ''yaml''" by blast
  from baseline_autodetect_is_strict[OF f3]
  have c1: "fst (load_baseline sample_env sample_fs ''baseline.conf'' None False) =
      strict_parse sample_env (baseline_format ''baseline.conf'' None) ''a: 1''"
    "list_all (\<lambda>e. \<not> other_parser_call (baseline_format ''baseline.conf'' None) e)
       (snd (load_baseline sample_env sample_fs ''baseline.conf'' None False))"
    by blast+
  show ?thesis
    using f1 f2 f3 a1 b0 b1[unfolded b0 sy oy] c0 c1[unfolded c0 sy oy] by simp
qed

text \<open>
  The claim as stated fails: the baseline \<open>baseline.json\<close> holds \<open>a: 1\<close>, which is YAML
  and not JSON, and \<open>load_baseline\<close> returns \<open>None\<close> after the JSON error, without a YAML call.
\<close>

theorem json_extension_fallback_counterexample:
  "endswith (lower ''baseline.json'') ''.json'' \<and>
   open_read sample_env sample_fs ''baseline.json'' = Inr ''a: 1'' \<and>
   yaml_safe_load sample_env ''a: 1'' = Inr (Mapping [(''a'', Scalar (SInt 1))]) \<and>
   json_loads sample_env ''a: 1'' = Inl (JSONDecodeError ''Expecting value'') \<and>
   load_baseline sample_env sample_fs ''baseline.json'' None False =
     (PyNone, [OpenRead ''baseline.json'', JsonLoads ''a: 1'',
               Log ERROR ''Error parsing JSON: Expecting value''])"
proof -
  have e: "endswith (lower ''baseline.json'') ''.json''"
    by (simp add: lower_baseline_json endswith_def)
  have f: "baseline_format ''baseline.json'' None = ''json''"
    by (rule json_extension_format[OF e])
  have r: "open_read sample_env sample_fs ''baseline.json'' = Inr ''a: 1''"
    by (simp add: sample_defs)
  have y: "yaml_safe_load sample_env ''a: 1'' = Inr (Mapping [(''a'', Scalar (SInt 1))])"
    by (simp add: sample_defs)
  have j: "json_loads sample_env ''a: 1'' = Inl (JSONDecodeError ''Expecting value'')"
    by (simp add: sample_defs)
  have lb: "load_baseline sample_env sample_fs ''baseline.json'' None False =
     (PyNone, [OpenRead ''baseline.json'', JsonLoads ''a: 1'',
               Log ERROR ''Error parsing JSON: Expecting value''])"
    by (simp add: load_baseline_def fetch_baseline_def f r j)
  show ?thesis using e r y j lb by simp
qed

end
